theory Spec2Isabelle
  imports Main "HOL-Library.Sublist"
begin

section \<open>Python strings\<close>

text \<open>
  A Python \<open>str\<close> is modelled as a \<open>string\<close>. The symbols the program prints that lie
  outside ASCII are written as their UTF-8 bytes. \<open>a.startswith(b)\<close> is \<open>prefix b a\<close> and
  \<open>b in a\<close> is \<open>sublist b a\<close>.
\<close>

definition nl :: string where
  "nl = [CHR 0x0A]"

definition sq :: string where
  "sq = [CHR 0x27]"


definition check_mark :: string where
  "check_mark = [CHR 0xE2, CHR 0x9C, CHR 0x93]"

definition cross_mark :: string where
  "cross_mark = [CHR 0xE2, CHR 0x9C, CHR 0x97]"

definition warning_sign :: string where
  "warning_sign = [CHR 0xE2, CHR 0x9A, CHR 0xA0]"


text \<open>\<open>str.lower()\<close> on the ASCII letters; every other character is left as it is.\<close>

definition lower_char :: "char \<Rightarrow> char" where
  "lower_char c =
     (case map_of (zip ''ABCDEFGHIJKLMNOPQRSTUVWXYZ'' ''abcdefghijklmnopqrstuvwxyz'') c of
        Some d \<Rightarrow> d
      | None \<Rightarrow> c)"

definition py_lower :: "string \<Rightarrow> string" where
  "py_lower s = map lower_char s"

text \<open>\<open>sep.join(xs)\<close>.\<close>

fun py_join :: "string \<Rightarrow> string list \<Rightarrow> string" where
  "py_join sep [] = []"
| "py_join sep [x] = x"
| "py_join sep (x # y # ys) = x @ sep @ py_join sep (y # ys)"

text \<open>\<open>s.split('(')[0]\<close>: the text before the first opening parenthesis.\<close>

definition split_paren_first :: "string \<Rightarrow> string" where
  "split_paren_first s = takeWhile (\<lambda>c. c \<noteq> CHR ''('') s"

section \<open>Type mapper\<close>

datatype error = DbError string | KeyError string

text \<open>The dictionary \<open>type_mapping\<close>, in insertion order.\<close>

definition type_mapping :: "(string \<times> string) list" where
  "type_mapping =
    [(''tinyint'', ''tinyint''),
     (''smallint'', ''smallint''),
     (''int'', ''int''),
     (''bigint'', ''bigint''),
     (''float'', ''float''),
     (''double'', ''double''),
     (''decimal'', ''decimal''),
     (''varchar'', ''text''),
     (''char'', ''text''),
     (''text'', ''text''),
     (''tinytext'', ''text''),
     (''mediumtext'', ''text''),
     (''longtext'', ''text''),
     (''varbinary'', ''blob''),
     (''binary'', ''blob''),
     (''blob'', ''blob''),
     (''tinyblob'', ''blob''),
     (''mediumblob'', ''blob''),
     (''longblob'', ''blob''),
     (''date'', ''date''),
     (''datetime'', ''timestamp''),
     (''timestamp'', ''timestamp''),
     (''time'', ''time'')]"

text \<open>
  \<open>sorted(type_mapping.keys(), key=len, reverse=True)\<close>: a stable sort, longest keys
  first, keys of one length in insertion order.
\<close>

definition sorted_keys :: "string list" where
  "sorted_keys = sort_key (\<lambda>k. - int (length k)) (map fst type_mapping)"

text \<open>
  The loop \<open>for key in ...: if base_type.startswith(key): return type_mapping[key]\<close>.
  \<open>None\<close> means that the loop ended without returning.
\<close>

fun match_keys :: "string \<Rightarrow> string list \<Rightarrow> (error + string) option" where
  "match_keys base_type [] = None"
| "match_keys base_type (key # keys) =
     (if prefix key base_type
      then (case map_of type_mapping key of
              Some v \<Rightarrow> Some (Inr v)
            | None \<Rightarrow> Some (Inl (KeyError key)))
      else match_keys base_type keys)"

definition unknown_type_warning :: "string \<Rightarrow> string" where
  "unknown_type_warning mariadb_type =
     ''    '' @ warning_sign @ '' Warning: Unknown type '' @ sq @ mariadb_type @ sq
       @ '', using '' @ sq @ ''text'' @ sq"

text \<open>The result is the returned type name and the lines printed on the way.\<close>

definition mariadb_type_to_cql_type :: "string \<Rightarrow> error + (string \<times> string list)" where
  "mariadb_type_to_cql_type mariadb_type =
     (let mariadb_type_lower = py_lower mariadb_type;
          base_type = split_paren_first mariadb_type_lower
      in case match_keys base_type sorted_keys of
           Some (Inl e) \<Rightarrow> Inl e
         | Some (Inr v) \<Rightarrow> Inr (v, [])
         | None \<Rightarrow>
            (if sublist ''binary(16)'' mariadb_type_lower \<or> sublist ''char(36)'' mariadb_type_lower
             then Inr (''uuid'', [])
             else Inr (''text'', [unknown_type_warning mariadb_type])))"




text \<open>A name between backticks, as in \<open>f"`{c}`"\<close>.\<close>

definition bq :: "string \<Rightarrow> string" where
  "bq c = ''`'' @ c @ ''`''"

section \<open>The two database connections\<close>

text \<open>
  The program talks to MariaDB through a cursor and to ScyllaDB through a session. The
  servers are a parameter of the model: a \<open>driver\<close> over a world \<open>'w\<close> answers every
  statement and may change the world. An answer \<open>Some m\<close> or \<open>Inl m\<close> is an exception
  raised by the call, with message \<open>m\<close>. The reading calls are typed by the rows the
  statement selects: table or column names, the four catalog fields of a column, the
  \<open>Field\<close> and \<open>Type\<close> entries of \<open>SHOW FULL COLUMNS\<close>, or the single count.
\<close>

datatype conn = MariaDB | Scylla

record 'w driver =
  connect :: "conn \<Rightarrow> 'w \<Rightarrow> string option \<times> 'w"
  run_statement :: "conn \<Rightarrow> string \<Rightarrow> 'w \<Rightarrow> string option \<times> 'w"
  fetch_names :: "string \<Rightarrow> 'w \<Rightarrow> (string + string list) \<times> 'w"
  fetch_schema :: "string \<Rightarrow> 'w \<Rightarrow> (string + (string \<times> string \<times> string \<times> string) list) \<times> 'w"
  fetch_full_columns :: "string \<Rightarrow> 'w \<Rightarrow> (string + (string \<times> string) list) \<times> 'w"
  fetch_count :: "string \<Rightarrow> 'w \<Rightarrow> (string + int) \<times> 'w"

text \<open>
  The state of a run: the world, the statements sent so far (with their connection), the
  lines printed, and the exceptions whose traceback was printed.
\<close>

record 'w run =
  world :: 'w
  issued :: "(conn \<times> string) list"
  out :: "string list"
  tracebacks :: "error list"

definition say :: "string \<Rightarrow> 'w run \<Rightarrow> 'w run" where
  "say line st = st\<lparr>out := out st @ [line]\<rparr>"

definition print_exc :: "error \<Rightarrow> 'w run \<Rightarrow> 'w run" where
  "print_exc e st = st\<lparr>tracebacks := tracebacks st @ [e]\<rparr>"

text \<open>The text of \<open>{e}\<close> in an f-string.\<close>

fun error_text :: "error \<Rightarrow> string" where
  "error_text (DbError m) = m"
| "error_text (KeyError k) = sq @ k @ sq"

definition sent :: "conn \<Rightarrow> string \<Rightarrow> 'w \<Rightarrow> 'w run \<Rightarrow> 'w run" where
  "sent c stmt w st = st\<lparr>world := w, issued := issued st @ [(c, stmt)]\<rparr>"

text \<open>\<open>cursor.execute(stmt)\<close> and \<open>session.execute(stmt)\<close>, with no rows read.\<close>

definition execute :: "'w driver \<Rightarrow> conn \<Rightarrow> string \<Rightarrow> 'w run \<Rightarrow> error option \<times> 'w run" where
  "execute db c stmt st =
     (case run_statement db c stmt (world st) of
        (None, w) \<Rightarrow> (None, sent c stmt w st)
      | (Some m, w) \<Rightarrow> (Some (DbError m), sent c stmt w st))"

text \<open>\<open>cursor.execute(stmt)\<close> followed by \<open>fetchall()\<close> or \<open>fetchone()\<close>.\<close>

definition query_names :: "'w driver \<Rightarrow> string \<Rightarrow> 'w run \<Rightarrow> (error + string list) \<times> 'w run" where
  "query_names db stmt st =
     (case fetch_names db stmt (world st) of
        (Inl m, w) \<Rightarrow> (Inl (DbError m), sent MariaDB stmt w st)
      | (Inr rows, w) \<Rightarrow> (Inr rows, sent MariaDB stmt w st))"

definition query_schema ::
  "'w driver \<Rightarrow> string \<Rightarrow> 'w run \<Rightarrow> (error + (string \<times> string \<times> string \<times> string) list) \<times> 'w run" where
  "query_schema db stmt st =
     (case fetch_schema db stmt (world st) of
        (Inl m, w) \<Rightarrow> (Inl (DbError m), sent MariaDB stmt w st)
      | (Inr rows, w) \<Rightarrow> (Inr rows, sent MariaDB stmt w st))"

definition query_full_columns ::
  "'w driver \<Rightarrow> string \<Rightarrow> 'w run \<Rightarrow> (error + (string \<times> string) list) \<times> 'w run" where
  "query_full_columns db stmt st =
     (case fetch_full_columns db stmt (world st) of
        (Inl m, w) \<Rightarrow> (Inl (DbError m), sent MariaDB stmt w st)
      | (Inr rows, w) \<Rightarrow> (Inr rows, sent MariaDB stmt w st))"

definition query_count :: "'w driver \<Rightarrow> string \<Rightarrow> 'w run \<Rightarrow> (error + int) \<times> 'w run" where
  "query_count db stmt st =
     (case fetch_count db stmt (world st) of
        (Inl m, w) \<Rightarrow> (Inl (DbError m), sent MariaDB stmt w st)
      | (Inr n, w) \<Rightarrow> (Inr n, sent MariaDB stmt w st))"

text \<open>The command-line arguments, as \<open>parse_arguments\<close> declares them.\<close>

record args =
  mariadb_host :: string
  mariadb_port :: int
  mariadb_user :: string
  mariadb_password :: string
  mariadb_database :: string
  mariadb_scylla_database :: string
  mariadb_docker_container :: string
  mariadb_verbose :: bool
  scylla_host :: string
  scylla_port :: int
  scylla_user :: "string option"
  scylla_password :: "string option"
  scylla_ks :: string
  scylla_fdw_host :: string
  scylla_docker_container :: string

section \<open>Schema introspection\<close>

record column =
  name :: string
  type :: string
  nullable :: bool
  is_primary :: bool

definition table_schema_query :: "string \<Rightarrow> string \<Rightarrow> string" where
  "table_schema_query database table =
     nl @ ''            SELECT column_name, column_type, is_nullable, column_key''
     @ nl @ ''            FROM information_schema.columns''
     @ nl @ ''            WHERE table_schema = '' @ sq @ database @ sq
     @ nl @ ''            AND table_name = '' @ sq @ table @ sq
     @ nl @ ''            ORDER BY ordinal_position''
     @ nl @ ''        ''"

definition column_of_row :: "string \<times> string \<times> string \<times> string \<Rightarrow> column" where
  "column_of_row row =
     (case row of (col_name, col_type, nullable_text, key) \<Rightarrow>
        \<lparr>name = col_name, type = col_type, nullable = (nullable_text = ''YES''),
         is_primary = (key = ''PRI'')\<rparr>)"

definition get_table_schema ::
  "'w driver \<Rightarrow> string \<Rightarrow> string \<Rightarrow> 'w run \<Rightarrow> (error + column list) \<times> 'w run" where
  "get_table_schema db database table st =
     (case query_schema db (table_schema_query database table) st of
        (Inl e, st') \<Rightarrow> (Inl e, st')
      | (Inr rows, st') \<Rightarrow> (Inr (map column_of_row rows), st'))"

definition source_tables_query :: "string \<Rightarrow> string" where
  "source_tables_query database =
     nl @ ''            SELECT table_name''
     @ nl @ ''            FROM information_schema.tables''
     @ nl @ ''            WHERE table_schema = '' @ sq @ database @ sq
     @ nl @ ''            AND table_type = '' @ sq @ ''BASE TABLE'' @ sq
     @ nl @ ''            ORDER BY table_name''
     @ nl @ ''        ''"


section \<open>Mirror table\<close>

text \<open>
  The loop of \<open>create_mariadb_scylla_table\<close> over the columns, with its two accumulators
  \<open>column_defs\<close> and \<open>primary_keys\<close>.
\<close>

definition col_def :: "column \<Rightarrow> string" where
  "col_def col =
     (let d = bq (name col) @ '' '' @ type col
      in if \<not> nullable col then d @ '' NOT NULL'' else d)"

fun build_column_defs :: "column list \<Rightarrow> string list \<Rightarrow> string list \<Rightarrow> string list \<times> string list" where
  "build_column_defs [] column_defs primary_keys = (column_defs, primary_keys)"
| "build_column_defs (col # columns) column_defs primary_keys =
     build_column_defs columns (column_defs @ [col_def col])
       (if is_primary col then primary_keys @ [bq (name col)] else primary_keys)"

definition primary_key_def :: "string list \<Rightarrow> string" where
  "primary_key_def primary_keys = ''PRIMARY KEY ('' @ py_join '', '' primary_keys @ '')''"

definition mirror_comment :: "string \<Rightarrow> string \<Rightarrow> string \<Rightarrow> bool \<Rightarrow> string" where
  "mirror_comment scylla_host_name scylla_keyspace table verbose =
     (let comment = ''scylla_hosts='' @ scylla_host_name @ '';scylla_keyspace='' @ scylla_keyspace
                      @ '';scylla_table='' @ table
      in if verbose then comment @ '';scylla_verbose=true'' else comment)"

definition mirror_create_stmt :: "string \<Rightarrow> string \<Rightarrow> string list \<Rightarrow> string \<Rightarrow> string" where
  "mirror_create_stmt scylla_database table column_defs comment =
     nl @ ''            CREATE TABLE IF NOT EXISTS '' @ bq scylla_database @ ''.'' @ bq table @ '' (''
     @ nl @ ''                '' @ py_join '', '' column_defs
     @ nl @ ''            ) ENGINE=SCYLLA''
     @ nl @ ''            COMMENT='' @ sq @ comment @ sq
     @ nl @ ''        ''"

text \<open>The statement the function builds from the introspected columns.\<close>

definition mirror_table_ddl :: "string \<Rightarrow> string \<Rightarrow> string \<Rightarrow> string \<Rightarrow> bool \<Rightarrow> column list \<Rightarrow> string" where
  "mirror_table_ddl scylla_database scylla_keyspace scylla_host_name table verbose columns =
     (case build_column_defs columns [] [] of
        (column_defs, primary_keys) \<Rightarrow>
          mirror_create_stmt scylla_database table
            (if primary_keys \<noteq> [] then column_defs @ [primary_key_def primary_keys] else column_defs)
            (mirror_comment scylla_host_name scylla_keyspace table verbose))"

definition create_mariadb_scylla_table ::
  "'w driver \<Rightarrow> string \<Rightarrow> string \<Rightarrow> string \<Rightarrow> string \<Rightarrow> int \<Rightarrow> string \<Rightarrow> args \<Rightarrow> 'w run
     \<Rightarrow> bool \<times> 'w run" where
  "create_mariadb_scylla_table db source_database scylla_database scylla_keyspace scylla_host_name
       scylla_port_number table a st =
     (case get_table_schema db source_database table st of
        (Inl e, st1) \<Rightarrow>
          (False, say (''  '' @ cross_mark @ '' Error creating table '' @ scylla_database @ ''.''
                        @ table @ '': '' @ error_text e) st1)
      | (Inr columns, st1) \<Rightarrow>
          if columns = []
          then (False, say (''  '' @ cross_mark @ '' No columns found for '' @ source_database
                             @ ''.'' @ table) st1)
          else
            (let create_stmt = mirror_table_ddl scylla_database scylla_keyspace scylla_host_name
                                 table (mariadb_verbose a) columns;
                 st2 = say (''  Creating ScyllaDB-backed table '' @ scylla_database @ ''.'' @ table
                             @ ''...'') st1
             in case execute db MariaDB create_stmt st2 of
                  (Some e, st3) \<Rightarrow>
                    (False, say (''  '' @ cross_mark @ '' Error creating table '' @ scylla_database
                                  @ ''.'' @ table @ '': '' @ error_text e) st3)
                | (None, st3) \<Rightarrow>
                    (True, say (''  '' @ check_mark @ '' Table '' @ scylla_database @ ''.'' @ table
                                 @ '' created'') st3)))"

section \<open>Replication triggers\<close>

definition where_clause_of :: "string list \<Rightarrow> string" where
  "where_clause_of primary_keys =
     py_join '' AND '' (map (\<lambda>pk. bq pk @ '' = OLD.'' @ bq pk) primary_keys)"

definition update_col_list_of :: "string list \<Rightarrow> string" where
  "update_col_list_of col_names =
     py_join '', '' (map (\<lambda>c. bq c @ '' = NEW.'' @ bq c) col_names)"

definition trigger_name :: "string \<Rightarrow> string \<Rightarrow> string" where
  "trigger_name table trigger_type = table @ ''_'' @ trigger_type @ ''_trigger''"

definition drop_trigger_stmt :: "string \<Rightarrow> string \<Rightarrow> string \<Rightarrow> string" where
  "drop_trigger_stmt source_database table trigger_type =
     ''DROP TRIGGER IF EXISTS '' @ bq source_database @ ''.'' @ bq (trigger_name table trigger_type)"

text \<open>The loop that drops the three triggers; an exception of a drop is swallowed.\<close>

fun drop_triggers :: "'w driver \<Rightarrow> string \<Rightarrow> string \<Rightarrow> string list \<Rightarrow> 'w run \<Rightarrow> 'w run" where
  "drop_triggers db source_database table [] st = st"
| "drop_triggers db source_database table (trigger_type # trigger_types) st =
     (case execute db MariaDB (drop_trigger_stmt source_database table trigger_type) st of
        (_, st') \<Rightarrow> drop_triggers db source_database table trigger_types st')"

definition debug_signal :: "bool \<Rightarrow> string \<Rightarrow> string \<Rightarrow> string \<Rightarrow> string" where
  "debug_signal verbose table trigger_type edge =
     (if verbose
      then ''SIGNAL SQLSTATE '' @ sq @ ''01000'' @ sq @ '' SET MESSAGE_TEXT = '' @ sq @ ''DEBUG: ''
             @ table @ ''_'' @ trigger_type @ ''_trigger '' @ edge @ sq @ '';''
      else [])"

definition insert_trigger_stmt :: "string \<Rightarrow> string \<Rightarrow> string \<Rightarrow> bool \<Rightarrow> string list \<Rightarrow> string" where
  "insert_trigger_stmt source_database scylla_database table verbose col_names =
     nl @ ''CREATE TRIGGER '' @ bq source_database @ ''.'' @ bq (table @ ''_insert_trigger'')
     @ nl @ ''AFTER INSERT ON '' @ bq source_database @ ''.'' @ bq table
     @ nl @ ''FOR EACH ROW''
     @ nl @ ''BEGIN''
     @ nl @ ''    '' @ debug_signal verbose table ''insert'' ''START''
     @ nl @ ''    INSERT INTO '' @ bq scylla_database @ ''.'' @ bq table @ '' (''
              @ py_join '', '' (map bq col_names) @ '')''
     @ nl @ ''    VALUES ('' @ py_join '', '' (map (\<lambda>c. ''NEW.'' @ bq c) col_names) @ '');''
     @ nl @ ''    '' @ debug_signal verbose table ''insert'' ''END''
     @ nl @ ''END$$''
     @ nl @ ''        ''"

definition update_trigger_stmt ::
  "string \<Rightarrow> string \<Rightarrow> string \<Rightarrow> bool \<Rightarrow> string list \<Rightarrow> string list \<Rightarrow> string" where
  "update_trigger_stmt source_database scylla_database table verbose col_names primary_keys =
     nl @ ''CREATE TRIGGER '' @ bq source_database @ ''.'' @ bq (table @ ''_update_trigger'')
     @ nl @ ''AFTER UPDATE ON '' @ bq source_database @ ''.'' @ bq table
     @ nl @ ''FOR EACH ROW''
     @ nl @ ''BEGIN''
     @ nl @ ''    '' @ debug_signal verbose table ''update'' ''START''
     @ nl @ ''    UPDATE '' @ bq scylla_database @ ''.'' @ bq table
     @ nl @ ''    SET '' @ update_col_list_of col_names
     @ nl @ ''    WHERE '' @ where_clause_of primary_keys @ '';''
     @ nl @ ''    '' @ debug_signal verbose table ''update'' ''END''
     @ nl @ ''END$$''
     @ nl @ ''        ''"

definition delete_trigger_stmt :: "string \<Rightarrow> string \<Rightarrow> string \<Rightarrow> bool \<Rightarrow> string list \<Rightarrow> string" where
  "delete_trigger_stmt source_database scylla_database table verbose primary_keys =
     nl @ ''CREATE TRIGGER '' @ bq source_database @ ''.'' @ bq (table @ ''_delete_trigger'')
     @ nl @ ''AFTER DELETE ON '' @ bq source_database @ ''.'' @ bq table
     @ nl @ ''FOR EACH ROW''
     @ nl @ ''BEGIN''
     @ nl @ ''    '' @ debug_signal verbose table ''delete'' ''START''
     @ nl @ ''    DELETE FROM '' @ bq scylla_database @ ''.'' @ bq table @ '' WHERE ''
              @ where_clause_of primary_keys @ '';''
     @ nl @ ''    '' @ debug_signal verbose table ''delete'' ''END''
     @ nl @ ''END$$''
     @ nl @ ''        ''"

text \<open>
  A statement, then the line printed when it has succeeded; \<open>then_execute\<close> skips both once an
  earlier statement of the \<open>try\<close> block has raised.
\<close>

definition then_execute ::
  "'w driver \<Rightarrow> string \<Rightarrow> error option \<times> 'w run \<Rightarrow> error option \<times> 'w run" where
  "then_execute db stmt r =
     (case r of (Some e, st) \<Rightarrow> (Some e, st) | (None, st) \<Rightarrow> execute db MariaDB stmt st)"

definition then_say :: "string \<Rightarrow> error option \<times> 'w run \<Rightarrow> error option \<times> 'w run" where
  "then_say line r = (case r of (Some e, st) \<Rightarrow> (Some e, st) | (None, st) \<Rightarrow> (None, say line st))"

definition create_trigger ::
  "'w driver \<Rightarrow> string \<Rightarrow> string \<Rightarrow> error option \<times> 'w run \<Rightarrow> error option \<times> 'w run" where
  "create_trigger db stmt label r =
     then_say (''    '' @ check_mark @ '' '' @ label @ '' trigger created'')
       (then_execute db ''DELIMITER ;''
         (then_execute db stmt
           (then_execute db ''DELIMITER $$'' r)))"

definition create_replication_triggers ::
  "'w driver \<Rightarrow> string \<Rightarrow> string \<Rightarrow> string \<Rightarrow> args \<Rightarrow> 'w run \<Rightarrow> bool \<times> 'w run" where
  "create_replication_triggers db source_database scylla_database table a st =
     (let failed = (\<lambda>e st'.
            (False, print_exc e (say (''  '' @ cross_mark @ '' Error creating triggers for ''
                                        @ source_database @ ''.'' @ table @ '': '' @ error_text e) st')))
      in case get_table_schema db source_database table st of
        (Inl e, st1) \<Rightarrow> failed e st1
      | (Inr columns, st1) \<Rightarrow>
          if columns = []
          then (False, say (''  '' @ cross_mark @ '' No columns found for '' @ source_database
                             @ ''.'' @ table) st1)
          else
            (let col_names = map name columns;
                 primary_keys = map name (filter is_primary columns)
             in if primary_keys = []
                then (False, say (''  '' @ cross_mark @ '' No primary key found for ''
                                   @ source_database @ ''.'' @ table
                                   @ '', cannot create triggers'') st1)
                else
                  (let st2 = drop_triggers db source_database table
                               [''insert'', ''update'', ''delete''] st1;
                       st3 = say (''  Creating replication triggers for '' @ source_database
                                   @ ''.'' @ table @ ''...'') st2;
                       verbose = mariadb_verbose a
                   in case
                        create_trigger db
                          (delete_trigger_stmt source_database scylla_database table verbose
                             primary_keys) ''DELETE''
                          (create_trigger db
                            (update_trigger_stmt source_database scylla_database table verbose
                               col_names primary_keys) ''UPDATE''
                            (create_trigger db
                              (insert_trigger_stmt source_database scylla_database table verbose
                                 col_names) ''INSERT''
                              (None, st3)))
                      of (Some e, st4) \<Rightarrow> failed e st4
                       | (None, st4) \<Rightarrow> (True, st4))))"

section \<open>Target keyspace and table\<close>

definition create_keyspace_stmt :: "string \<Rightarrow> string" where
  "create_keyspace_stmt keyspace =
     nl @ ''            CREATE KEYSPACE IF NOT EXISTS '' @ keyspace
     @ nl @ ''            WITH replication = {'' @ sq @ ''class'' @ sq @ '': '' @ sq @ ''SimpleStrategy''
          @ sq @ '', '' @ sq @ ''replication_factor'' @ sq @ '': 1}''
     @ nl @ ''        ''"

text \<open>\<open>Some e\<close> in the result is the exception the function raises.\<close>

definition create_keyspace :: "'w driver \<Rightarrow> string \<Rightarrow> 'w run \<Rightarrow> error option \<times> 'w run" where
  "create_keyspace db keyspace st =
     (case execute db Scylla (create_keyspace_stmt keyspace) st of
        (Some e, st1) \<Rightarrow>
          (Some e, say (''    '' @ cross_mark @ '' Error creating keyspace: '' @ error_text e) st1)
      | (None, st1) \<Rightarrow>
          (None, say (''    '' @ check_mark @ '' Keyspace '' @ sq @ keyspace @ sq @ '' ready'') st1))"

text \<open>
  The loop of \<open>create_scylla_table\<close> over the rows of \<open>SHOW FULL COLUMNS\<close>: each row is a
  pair of its \<open>Field\<close> and \<open>Type\<close>; the type mapper may print a warning.
\<close>

fun build_col_defs ::
  "(string \<times> string) list \<Rightarrow> string list \<Rightarrow> 'w run \<Rightarrow> (error + string list) \<times> 'w run" where
  "build_col_defs [] col_defs st = (Inr col_defs, st)"
| "build_col_defs ((col_name, col_type) # columns) col_defs st =
     (case mariadb_type_to_cql_type col_type of
        Inl e \<Rightarrow> (Inl e, st)
      | Inr (cql_type, printed) \<Rightarrow>
          build_col_defs columns (col_defs @ [col_name @ '' '' @ cql_type])
            (st\<lparr>out := out st @ printed\<rparr>))"

definition scylla_create_stmt :: "string \<Rightarrow> string \<Rightarrow> string list \<Rightarrow> string list \<Rightarrow> string" where
  "scylla_create_stmt keyspace table_name col_defs pk_columns =
     nl @ ''            CREATE TABLE IF NOT EXISTS '' @ keyspace @ ''.'' @ table_name @ '' (''
     @ nl @ ''                '' @ py_join '', '' col_defs @ '',''
     @ nl @ ''                '' @ primary_key_def pk_columns
     @ nl @ ''            )''
     @ nl @ ''        ''"

definition create_scylla_table ::
  "'w driver \<Rightarrow> string \<Rightarrow> (string \<times> string) list \<Rightarrow> string list \<Rightarrow> string \<Rightarrow> 'w run
     \<Rightarrow> error option \<times> 'w run" where
  "create_scylla_table db table_name columns pk_columns keyspace st =
     (let failed = (\<lambda>e st'.
            (Some e, say (''    '' @ cross_mark @ '' Error creating ScyllaDB table: '' @ error_text e) st'));
          st1 = say (''    Creating ScyllaDB table '' @ sq @ keyspace @ ''.'' @ table_name @ sq
                      @ ''...'') st
      in case build_col_defs columns [] st1 of
           (Inl e, st2) \<Rightarrow> failed e st2
         | (Inr col_defs, st2) \<Rightarrow>
             (case execute db Scylla (scylla_create_stmt keyspace table_name col_defs pk_columns) st2 of
                (Some e, st3) \<Rightarrow> failed e st3
              | (None, st3) \<Rightarrow>
                  (None, say (''    '' @ check_mark @ '' ScyllaDB table created'') st3)))"

section \<open>Per-table setup\<close>

definition show_full_columns_stmt :: "string \<Rightarrow> string \<Rightarrow> string" where
  "show_full_columns_stmt database table_name =
     ''SHOW FULL COLUMNS FROM '' @ bq database @ ''.'' @ bq table_name"

definition primary_key_query :: "string \<Rightarrow> string \<Rightarrow> string" where
  "primary_key_query database table_name =
     nl @ ''            SELECT column_name''
     @ nl @ ''            FROM information_schema.key_column_usage''
     @ nl @ ''            WHERE table_schema = '' @ sq @ database @ sq
     @ nl @ ''            AND table_name = '' @ sq @ table_name @ sq
     @ nl @ ''            AND constraint_name = '' @ sq @ ''PRIMARY'' @ sq
     @ nl @ ''            ORDER BY ordinal_position''
     @ nl @ ''        ''"

definition no_primary_key_lines :: "string \<Rightarrow> string list" where
  "no_primary_key_lines table_name =
     [''  '' @ cross_mark @ '' Error: Table '' @ sq @ table_name @ sq @ '' has no primary key'',
      ''    ScyllaDB requires a primary key. Skipping this table.'']"

definition setup_table_migration ::
  "'w driver \<Rightarrow> string \<Rightarrow> args \<Rightarrow> 'w run \<Rightarrow> error option \<times> 'w run" where
  "setup_table_migration db table_name a st =
     (let st0 = say (''  Getting table structure for '' @ sq @ table_name @ sq @ ''...'') st
      in case query_full_columns db (show_full_columns_stmt (mariadb_database a) table_name) st0 of
           (Inl e, st1) \<Rightarrow> (Some e, st1)
         | (Inr columns, st1) \<Rightarrow>
             (case query_names db (primary_key_query (mariadb_database a) table_name) st1 of
                (Inl e, st2) \<Rightarrow> (Some e, st2)
              | (Inr pk_columns, st2) \<Rightarrow>
                  if pk_columns = []
                  then (None, st2\<lparr>out := out st2 @ no_primary_key_lines table_name\<rparr>)
                  else
                    (case create_keyspace db (scylla_ks a) st2 of
                       (Some e, st3) \<Rightarrow> (Some e, st3)
                     | (None, st3) \<Rightarrow>
                         (case create_scylla_table db table_name columns pk_columns (scylla_ks a) st3 of
                            (Some e, st4) \<Rightarrow> (Some e, st4)
                          | (None, st4) \<Rightarrow>
                              (case create_mariadb_scylla_table db (mariadb_database a)
                                      (mariadb_scylla_database a) (scylla_ks a) (scylla_fdw_host a)
                                      (scylla_port a) table_name a st4 of
                                 (_, st5) \<Rightarrow>
                                   (case create_replication_triggers db (mariadb_database a)
                                           (mariadb_scylla_database a) table_name a st5 of
                                      (_, st6) \<Rightarrow> (None, st6)))))))"

section \<open>Bulk copy\<close>

definition count_stmt :: "string \<Rightarrow> string \<Rightarrow> string" where
  "count_stmt source_database table_name =
     ''SELECT COUNT(*) FROM '' @ bq source_database @ ''.'' @ bq table_name"




section \<open>The run\<close>


text \<open>The two loops of \<open>main\<close> over the tables. An exception leaves the loop.\<close>

fun setup_tables :: "'w driver \<Rightarrow> args \<Rightarrow> string list \<Rightarrow> 'w run \<Rightarrow> error option \<times> 'w run" where
  "setup_tables db a [] st = (None, st)"
| "setup_tables db a (table # tables) st =
     (case setup_table_migration db table a (say (nl @ ''Processing table: '' @ table) st) of
        (Some e, st') \<Rightarrow> (Some e, st')
      | (None, st') \<Rightarrow> setup_tables db a tables st')"








section \<open>A driver for the examples\<close>

text \<open>
  The examples run the program against a driver written out here. It answers the reading
  statements from a fixed source catalog, which holds, for each table, its name, its columns
  (name, type, nullability text, key text) and its row count. It refuses every ScyllaDB
  statement when the switch \<open>scylla_ok\<close> is off, every MariaDB statement that returns no
  rows when the switch \<open>read_only\<close> is on, and every \<open>DELIMITER\<close> statement: \<open>DELIMITER\<close>
  is a command of the command-line client of MariaDB, which the server does not know. It
  accepts every other statement. Its state is the list of the statements it has refused.
\<close>

type_synonym catalog = "(string \<times> (string \<times> string \<times> string \<times> string) list \<times> int) list"

record engine =
  refused :: "(conn \<times> string) list"

definition is_space :: "char \<Rightarrow> bool" where
  "is_space c = (c = CHR '' '' \<or> c = CHR 0x0A \<or> c = CHR 0x09 \<or> c = CHR 0x0D)"

definition refuse :: "conn \<Rightarrow> string \<Rightarrow> string \<Rightarrow> engine \<Rightarrow> string option \<times> engine" where
  "refuse c stmt message w = (Some message, w\<lparr>refused := refused w @ [(c, stmt)]\<rparr>)"

definition engine_run :: "bool \<Rightarrow> bool \<Rightarrow> conn \<Rightarrow> string \<Rightarrow> engine \<Rightarrow> string option \<times> engine" where
  "engine_run scylla_ok read_only c stmt w =
     (if c = Scylla \<and> \<not> scylla_ok then refuse c stmt ''not authorized'' w
      else if c = MariaDB \<and> read_only then refuse c stmt ''server is read-only'' w
      else if c = MariaDB \<and> prefix ''DELIMITER'' stmt then refuse c stmt ''syntax error'' w
      else (None, w))"

definition engine_driver :: "string \<Rightarrow> catalog \<Rightarrow> bool \<Rightarrow> bool \<Rightarrow> engine driver" where
  "engine_driver source_database cat scylla_ok read_only =
     \<lparr>connect = (\<lambda>c w. (None, w)),
      run_statement = engine_run scylla_ok read_only,
      fetch_names = (\<lambda>stmt w.
         if stmt = source_tables_query source_database then (Inr (map fst cat), w)
         else case find (\<lambda>e. stmt = primary_key_query source_database (fst e)) cat of
                Some (t, cols, n) \<Rightarrow>
                  (Inr (map fst (filter (\<lambda>col. snd (snd (snd col)) = ''PRI'') cols)), w)
              | None \<Rightarrow> (Inr [], w)),
      fetch_schema = (\<lambda>stmt w.
         case find (\<lambda>e. stmt = table_schema_query source_database (fst e)) cat of
           Some (t, cols, n) \<Rightarrow> (Inr cols, w)
         | None \<Rightarrow> (Inr [], w)),
      fetch_full_columns = (\<lambda>stmt w.
         case find (\<lambda>e. stmt = show_full_columns_stmt source_database (fst e)) cat of
           Some (t, cols, n) \<Rightarrow> (Inr (map (\<lambda>col. (fst col, fst (snd col))) cols), w)
         | None \<Rightarrow> (Inl ''table does not exist'', w)),
      fetch_count = (\<lambda>stmt w.
         case find (\<lambda>e. stmt = count_stmt source_database (fst e)) cat of
           Some (t, cols, n) \<Rightarrow> (Inr n, w)
         | None \<Rightarrow> (Inl ''table does not exist'', w))\<rparr>"

text \<open>
  The state in which a run starts, two source tables used as examples, and the engine
  before it has refused anything.
\<close>

definition start :: "'w \<Rightarrow> 'w run" where
  "start w = \<lparr>world = w, issued = [], out = [], tracebacks = []\<rparr>"

definition animals_columns :: "(string \<times> string \<times> string \<times> string) list" where
  "animals_columns =
     [(''animal_id'', ''int(11)'', ''NO'', ''PRI''),
      (''name'', ''varchar(50)'', ''YES'', []),
      (''weight_kg'', ''decimal(10,0)'', ''YES'', [])]"

definition notes_columns :: "(string \<times> string \<times> string \<times> string) list" where
  "notes_columns = [(''body'', ''text'', ''YES'', [])]"

definition zoo :: catalog where
  "zoo = [(''animals'', animals_columns, 2), (''notes'', notes_columns, 0)]"

definition fresh :: engine where
  "fresh = \<lparr>refused = []\<rparr>"

definition default_args :: args where
  "default_args =
     \<lparr>mariadb_host = ''127.0.0.1'', mariadb_port = 3306, mariadb_user = ''root'',
      mariadb_password = ''rootpassword'', mariadb_database = ''testdb'',
      mariadb_scylla_database = ''scylla_db'',
      mariadb_docker_container = ''mariadb-migration-source'', mariadb_verbose = False,
      scylla_host = ''localhost'', scylla_port = 9042, scylla_user = None,
      scylla_password = None, scylla_ks = ''migration'',
      scylla_fdw_host = ''scylladb-migration-target'',
      scylla_docker_container = ''scylladb-migration-target''\<rparr>"

text \<open>Whether a statement, after its leading white space, is a \<open>CREATE\<close> statement.\<close>

definition is_create_statement :: "string \<Rightarrow> bool" where
  "is_create_statement stmt = prefix ''CREATE '' (dropWhile is_space stmt)"


section \<open>Notions used in the properties\<close>

text \<open>
  The type name the mapper returns for a type, the warnings it prints, and the column
  definitions that the loop of \<open>create_scylla_table\<close> builds from the rows of
  \<open>SHOW FULL COLUMNS\<close>.
\<close>

definition cql_type_of :: "string \<Rightarrow> string" where
  "cql_type_of t = (case mariadb_type_to_cql_type t of Inr (v, ls) \<Rightarrow> v | Inl e \<Rightarrow> [])"

definition warnings_of :: "string \<Rightarrow> string list" where
  "warnings_of t = (case mariadb_type_to_cql_type t of Inr (v, ls) \<Rightarrow> ls | Inl e \<Rightarrow> [])"

definition col_defs_of :: "(string \<times> string) list \<Rightarrow> string list" where
  "col_defs_of columns = map (\<lambda>col. fst col @ '' '' @ cql_type_of (snd col)) columns"

text \<open>
  The steps of the per-table setup whose exception nothing catches never fail, for the
  tables of a sequence: the two introspection queries, keyspace creation and target-table
  creation.
\<close>

definition target_steps_succeed :: "'w driver \<Rightarrow> args \<Rightarrow> string list \<Rightarrow> bool" where
  "target_steps_succeed db a tables =
     (\<forall>table \<in> set tables. \<forall>w.
        (\<exists>rows. fst (fetch_full_columns db (show_full_columns_stmt (mariadb_database a) table) w) = Inr rows)
      \<and> (\<exists>rows. fst (fetch_names db (primary_key_query (mariadb_database a) table) w) = Inr rows)
      \<and> fst (run_statement db Scylla (create_keyspace_stmt (scylla_ks a)) w) = None
      \<and> (\<forall>col_defs pk_columns.
            fst (run_statement db Scylla
                   (scylla_create_stmt (scylla_ks a) table col_defs pk_columns) w) = None))"





section \<open>Properties of the type mapper\<close>

lemma sorted_keys_list:
  "sorted_keys = [''mediumtext'', ''mediumblob'', ''varbinary'', ''timestamp'', ''smallint'',
     ''tinytext'', ''longtext'', ''tinyblob'', ''longblob'', ''datetime'', ''tinyint'', ''decimal'',
     ''varchar'', ''bigint'', ''double'', ''binary'', ''float'', ''char'', ''text'', ''blob'',
     ''date'', ''time'', ''int'']"
  by (simp add: sorted_keys_def type_mapping_def)

lemma set_sorted_keys: "set sorted_keys = fst ` set type_mapping"
  by (simp add: sorted_keys_def)

lemma sorted_keys_descending: "sorted_wrt (\<lambda>a b. length b \<le> length a) sorted_keys"
  by (simp add: sorted_keys_list)


text \<open>The dictionary lookup inside the loop never raises: every key tested is a key of it.\<close>

lemma match_keys_no_error:
  "set keys \<subseteq> fst ` set type_mapping \<Longrightarrow> match_keys base_type keys \<noteq> Some (Inl e)"
proof (induction keys)
  case Nil
  then show ?case by simp
next
  case (Cons key keys)
  from Cons.prems have "key \<in> fst ` set type_mapping" by simp
  then obtain v where "map_of type_mapping key = Some v"
    by (metis domD dom_map_of_conv_image_fst)
  with Cons show ?case by simp
qed

text \<open>With the keys in descending length, the key that answers is a longest matching one.\<close>

lemma match_keys_longest:
  "sorted_wrt (\<lambda>a b. length b \<le> length a) keys \<Longrightarrow> match_keys base_type keys = Some r \<Longrightarrow>
   \<exists>key \<in> set keys. prefix key base_type
      \<and> (\<forall>k \<in> set keys. prefix k base_type \<longrightarrow> length k \<le> length key)
      \<and> r = (case map_of type_mapping key of Some v \<Rightarrow> Inr v | None \<Rightarrow> Inl (KeyError key))"
proof (induction keys)
  case Nil
  then show ?case by simp
next
  case (Cons key keys)
  show ?case
  proof (cases "prefix key base_type")
    case True
    with Cons.prems show ?thesis
      by (auto split: option.splits)
  next
    case False
    with Cons.prems have m: "match_keys base_type keys = Some r" by simp
    from Cons.prems have s: "sorted_wrt (\<lambda>a b. length b \<le> length a) keys" by simp
    from Cons.IH [OF s m] False show ?thesis by auto
  qed
qed

lemmas mapper_eval = mariadb_type_to_cql_type_def py_lower_def lower_char_def split_paren_first_def
  sorted_keys_list type_mapping_def sublist_Cons_right

text \<open>
  Claim C2. The type mapper is claimed to give the UUID type for \<open>binary(16)\<close> and for
  \<open>char(36)\<close>, and another type for \<open>char(10)\<close>. The code answers from the prefix loop
  before it reaches the UUID test: \<open>binary(16)\<close> has the base type \<open>binary\<close> and maps to
  \<open>blob\<close>, \<open>char(36)\<close> has the base type \<open>char\<close> and maps to \<open>text\<close>, as \<open>char(10)\<close> does.
\<close>

theorem mapper_fixed_width_shapes:
  "mariadb_type_to_cql_type ''binary(16)'' = Inr (''blob'', [])
   \<and> mariadb_type_to_cql_type ''char(36)'' = Inr (''text'', [])
   \<and> mariadb_type_to_cql_type ''char(10)'' = Inr (''text'', [])"
  by (simp add: mapper_eval)

text \<open>
  Claim C6. The mapper gives \<open>timestamp\<close> for the type \<open>timestamp\<close> and \<open>time\<close> for the
  type \<open>time\<close>, two different results, although \<open>time\<close> is a prefix of \<open>timestamp\<close>: the
  keys are tested in descending length.
\<close>

theorem mapper_timestamp_before_time:
  "mariadb_type_to_cql_type ''timestamp'' = Inr (''timestamp'', [])
   \<and> mariadb_type_to_cql_type ''time'' = Inr (''time'', [])
   \<and> mariadb_type_to_cql_type ''timestamp'' \<noteq> mariadb_type_to_cql_type ''time''
   \<and> prefix ''time'' ''timestamp''
   \<and> sorted_wrt (\<lambda>a b. length b \<le> length a) sorted_keys"
  by (simp add: mapper_eval sorted_keys_descending [unfolded sorted_keys_list])



section \<open>Properties of the generated statements\<close>




















section \<open>Properties of the calls\<close>

lemma say_fields [simp]:
  "world (say line st) = world st" "issued (say line st) = issued st"
  "out (say line st) = out st @ [line]" "tracebacks (say line st) = tracebacks st"
  by (simp_all add: say_def)

lemma print_exc_fields [simp]:
  "world (print_exc e st) = world st" "issued (print_exc e st) = issued st"
  "out (print_exc e st) = out st" "tracebacks (print_exc e st) = tracebacks st @ [e]"
  by (simp_all add: print_exc_def)

lemma sent_fields [simp]:
  "world (sent c stmt w st) = w" "issued (sent c stmt w st) = issued st @ [(c, stmt)]"
  "out (sent c stmt w st) = out st" "tracebacks (sent c stmt w st) = tracebacks st"
  by (simp_all add: sent_def)

lemma execute_fields [simp]:
  "issued (snd (execute db c stmt st)) = issued st @ [(c, stmt)]"
  "out (snd (execute db c stmt st)) = out st"
  "tracebacks (snd (execute db c stmt st)) = tracebacks st"
  "world (snd (execute db c stmt st)) = snd (run_statement db c stmt (world st))"
  "fst (execute db c stmt st) = map_option DbError (fst (run_statement db c stmt (world st)))"
  by (simp_all add: execute_def split: prod.splits option.splits)

lemma query_count_fields [simp]:
  "issued (snd (query_count db stmt st)) = issued st @ [(MariaDB, stmt)]"
  "out (snd (query_count db stmt st)) = out st"
  "tracebacks (snd (query_count db stmt st)) = tracebacks st"
  "world (snd (query_count db stmt st)) = snd (fetch_count db stmt (world st))"
  "fst (query_count db stmt st) = map_sum DbError id (fst (fetch_count db stmt (world st)))"
  by (simp_all add: query_count_def split: prod.splits sum.splits)

lemma query_names_fields [simp]:
  "issued (snd (query_names db stmt st)) = issued st @ [(MariaDB, stmt)]"
  "out (snd (query_names db stmt st)) = out st"
  "tracebacks (snd (query_names db stmt st)) = tracebacks st"
  "world (snd (query_names db stmt st)) = snd (fetch_names db stmt (world st))"
  "fst (query_names db stmt st) = map_sum DbError id (fst (fetch_names db stmt (world st)))"
  by (simp_all add: query_names_def split: prod.splits sum.splits)

lemma query_full_columns_fields [simp]:
  "issued (snd (query_full_columns db stmt st)) = issued st @ [(MariaDB, stmt)]"
  "out (snd (query_full_columns db stmt st)) = out st"
  "tracebacks (snd (query_full_columns db stmt st)) = tracebacks st"
  "world (snd (query_full_columns db stmt st)) = snd (fetch_full_columns db stmt (world st))"
  "fst (query_full_columns db stmt st)
     = map_sum DbError id (fst (fetch_full_columns db stmt (world st)))"
  by (simp_all add: query_full_columns_def split: prod.splits sum.splits)

lemma get_table_schema_fields [simp]:
  "issued (snd (get_table_schema db database table st))
     = issued st @ [(MariaDB, table_schema_query database table)]"
  "out (snd (get_table_schema db database table st)) = out st"
  "tracebacks (snd (get_table_schema db database table st)) = tracebacks st"
  "world (snd (get_table_schema db database table st))
     = snd (fetch_schema db (table_schema_query database table) (world st))"
  "fst (get_table_schema db database table st)
     = map_sum DbError (map column_of_row)
         (fst (fetch_schema db (table_schema_query database table) (world st)))"
  by (simp_all add: get_table_schema_def query_schema_def split: prod.splits sum.splits)



lemma not_create_show: "\<not> is_create_statement (show_full_columns_stmt database table_name)"
  by (simp add: is_create_statement_def show_full_columns_stmt_def is_space_def)

lemma not_create_primary_key_query: "\<not> is_create_statement (primary_key_query database table_name)"
  by (simp add: is_create_statement_def primary_key_query_def is_space_def nl_def)

text \<open>
  Claim C4. When the primary-key query of a table returns no column, the per-table setup
  reports that the table has no primary key and is skipped, and returns without raising.
  It has sent the two introspection queries and nothing else: no \<open>CREATE TABLE\<close> and no
  \<open>CREATE TRIGGER\<close>, as neither the mirror-table nor the trigger generation is reached. The
  loop over the tables goes on with the next table.
\<close>

theorem table_without_primary_key_is_skipped:
  assumes "fst (fetch_full_columns db (show_full_columns_stmt (mariadb_database a) table_name)
                  (world st)) = Inr columns"
    and "fst (fetch_names db (primary_key_query (mariadb_database a) table_name)
                  (snd (fetch_full_columns db (show_full_columns_stmt (mariadb_database a) table_name)
                          (world st)))) = Inr []"
  shows "fst (setup_table_migration db table_name a st) = None
       \<and> issued (snd (setup_table_migration db table_name a st))
           = issued st @ [(MariaDB, show_full_columns_stmt (mariadb_database a) table_name),
                          (MariaDB, primary_key_query (mariadb_database a) table_name)]
       \<and> \<not> is_create_statement (show_full_columns_stmt (mariadb_database a) table_name)
       \<and> \<not> is_create_statement (primary_key_query (mariadb_database a) table_name)
       \<and> out (snd (setup_table_migration db table_name a st))
           = out st @ [''  Getting table structure for '' @ sq @ table_name @ sq @ ''...'']
               @ no_primary_key_lines table_name
       \<and> tracebacks (snd (setup_table_migration db table_name a st)) = tracebacks st
       \<and> setup_tables db a (table_name # tables) st
           = setup_tables db a tables
               (snd (setup_table_migration db table_name a
                       (say (nl @ ''Processing table: '' @ table_name) st)))"
proof -
  have run: "fst (setup_table_migration db table_name a s) = None
       \<and> issued (snd (setup_table_migration db table_name a s))
           = issued s @ [(MariaDB, show_full_columns_stmt (mariadb_database a) table_name),
                          (MariaDB, primary_key_query (mariadb_database a) table_name)]
       \<and> out (snd (setup_table_migration db table_name a s))
           = out s @ [''  Getting table structure for '' @ sq @ table_name @ sq @ ''...'']
               @ no_primary_key_lines table_name
       \<and> tracebacks (snd (setup_table_migration db table_name a s)) = tracebacks s"
    if "world s = world st" for s
    using assms that
    by (simp add: setup_table_migration_def Let_def split_beta)
  from run [of "say (nl @ ''Processing table: '' @ table_name) st"]
  have "setup_tables db a (table_name # tables) st
           = setup_tables db a tables
               (snd (setup_table_migration db table_name a
                       (say (nl @ ''Processing table: '' @ table_name) st)))"
    by (simp add: split_beta split: option.splits)
  with run [of st] not_create_show not_create_primary_key_query show ?thesis
    by simp
qed

theorem table_without_primary_key_is_skipped_witness:
  "fst (setup_table_migration (engine_driver ''testdb'' zoo True False) ''notes'' default_args
          (start fresh)) = None
   \<and> issued (snd (setup_table_migration (engine_driver ''testdb'' zoo True False) ''notes''
                     default_args (start fresh)))
       = [(MariaDB, show_full_columns_stmt ''testdb'' ''notes''),
          (MariaDB, primary_key_query ''testdb'' ''notes'')]"
proof -
  let ?db = "engine_driver ''testdb'' zoo True False"
  have h1: "fst (fetch_full_columns ?db (show_full_columns_stmt (mariadb_database default_args) ''notes'')
                  (world (start fresh))) = Inr [(''body'', ''text'')]"
    by (simp add: engine_driver_def zoo_def show_full_columns_stmt_def bq_def default_args_def
          notes_columns_def)
  have h2: "fst (fetch_names ?db (primary_key_query (mariadb_database default_args) ''notes'')
                  (snd (fetch_full_columns ?db
                          (show_full_columns_stmt (mariadb_database default_args) ''notes'')
                          (world (start fresh))))) = Inr []"
    by (simp add: engine_driver_def zoo_def primary_key_query_def source_tables_query_def
          default_args_def notes_columns_def nl_def sq_def)
  from table_without_primary_key_is_skipped [OF h1 h2] show ?thesis
    by (simp add: start_def default_args_def)
qed

text \<open>Trigger generation has the same guard of its own, on the columns flagged primary.\<close>

lemma triggers_skipped_without_primary_key:
  assumes "fst (fetch_schema db (table_schema_query source_database table) (world st)) = Inr rows"
    and "rows \<noteq> []" and "filter is_primary (map column_of_row rows) = []"
  shows "fst (create_replication_triggers db source_database scylla_database table a st) = False
       \<and> issued (snd (create_replication_triggers db source_database scylla_database table a st))
           = issued st @ [(MariaDB, table_schema_query source_database table)]
       \<and> out (snd (create_replication_triggers db source_database scylla_database table a st))
           = out st @ [''  '' @ cross_mark @ '' No primary key found for '' @ source_database
                         @ ''.'' @ table @ '', cannot create triggers'']"
  using assms
  by (simp add: create_replication_triggers_def Let_def split_beta)

section \<open>Properties of the run\<close>

lemma mapper_returns: "\<exists>v ls. mariadb_type_to_cql_type t = Inr (v, ls)"
proof -
  let ?m = "match_keys (split_paren_first (py_lower t)) sorted_keys"
  have ne: "?m \<noteq> Some (Inl e)" for e
    by (rule match_keys_no_error) (simp add: set_sorted_keys)
  show ?thesis
  proof (cases ?m)
    case None
    then show ?thesis by (simp add: mariadb_type_to_cql_type_def Let_def)
  next
    case (Some r)
    with ne obtain v where "r = Inr v" by (cases r) auto
    with Some show ?thesis by (simp add: mariadb_type_to_cql_type_def Let_def)
  qed
qed

lemma build_col_defs_eq:
  "build_col_defs columns acc st
     = (Inr (acc @ col_defs_of columns),
        st\<lparr>out := out st @ concat (map (\<lambda>col. warnings_of (snd col)) columns)\<rparr>)"
proof (induction columns arbitrary: acc st)
  case Nil
  then show ?case by (simp add: col_defs_of_def)
next
  case (Cons col columns)
  obtain col_name col_type where col: "col = (col_name, col_type)" by (cases col)
  obtain v ls where m: "mariadb_type_to_cql_type col_type = Inr (v, ls)"
    using mapper_returns by blast
  show ?case
    by (simp add: col m Cons col_defs_of_def cql_type_of_def warnings_of_def)
qed

lemma create_keyspace_fields [simp]:
  "fst (create_keyspace db keyspace st)
     = map_option DbError (fst (run_statement db Scylla (create_keyspace_stmt keyspace) (world st)))"
  "issued (snd (create_keyspace db keyspace st)) = issued st @ [(Scylla, create_keyspace_stmt keyspace)]"
  "world (snd (create_keyspace db keyspace st))
     = snd (run_statement db Scylla (create_keyspace_stmt keyspace) (world st))"
  "tracebacks (snd (create_keyspace db keyspace st)) = tracebacks st"
  by (simp_all add: create_keyspace_def split_beta split: option.splits)

lemma create_scylla_table_fields [simp]:
  "fst (create_scylla_table db table_name columns pk_columns keyspace st)
       = map_option DbError (fst (run_statement db Scylla
            (scylla_create_stmt keyspace table_name (col_defs_of columns) pk_columns) (world st)))"
  "issued (snd (create_scylla_table db table_name columns pk_columns keyspace st))
       = issued st @ [(Scylla, scylla_create_stmt keyspace table_name (col_defs_of columns) pk_columns)]"
  "world (snd (create_scylla_table db table_name columns pk_columns keyspace st))
       = snd (run_statement db Scylla
            (scylla_create_stmt keyspace table_name (col_defs_of columns) pk_columns) (world st))"
  "tracebacks (snd (create_scylla_table db table_name columns pk_columns keyspace st)) = tracebacks st"
  by (simp_all add: create_scylla_table_def Let_def split_beta build_col_defs_eq split: option.splits)

lemma then_execute_fields [simp]:
  "fst (then_execute db stmt r)
     = (case fst r of Some e \<Rightarrow> Some e
        | None \<Rightarrow> map_option DbError (fst (run_statement db MariaDB stmt (world (snd r)))))"
  "issued (snd (then_execute db stmt r))
     = (if fst r = None then issued (snd r) @ [(MariaDB, stmt)] else issued (snd r))"
  "world (snd (then_execute db stmt r))
     = (if fst r = None then snd (run_statement db MariaDB stmt (world (snd r))) else world (snd r))"
  "out (snd (then_execute db stmt r)) = out (snd r)"
  "tracebacks (snd (then_execute db stmt r)) = tracebacks (snd r)"
  by (simp_all add: then_execute_def split_beta split: option.splits)

lemma then_say_fields [simp]:
  "fst (then_say line r) = fst r"
  "issued (snd (then_say line r)) = issued (snd r)"
  "world (snd (then_say line r)) = world (snd r)"
  "out (snd (then_say line r)) = (if fst r = None then out (snd r) @ [line] else out (snd r))"
  "tracebacks (snd (then_say line r)) = tracebacks (snd r)"
  by (simp_all add: then_say_def split_beta split: option.splits)

lemma drop_triggers_fields [simp]:
  "issued (drop_triggers db source_database table trigger_types st)
     = issued st @ map (\<lambda>ty. (MariaDB, drop_trigger_stmt source_database table ty)) trigger_types"
  "out (drop_triggers db source_database table trigger_types st) = out st"
  "tracebacks (drop_triggers db source_database table trigger_types st) = tracebacks st"
  by (induction trigger_types arbitrary: st) (simp_all add: split_beta)

lemma create_trigger_prefix:
  "prefix (issued (snd r)) (issued (snd (create_trigger db stmt label r)))"
  by (simp add: create_trigger_def)

lemma mirror_table_prefix:
  "prefix (issued st)
     (issued (snd (create_mariadb_scylla_table db source_database scylla_database scylla_keyspace
                     scylla_host_name scylla_port_number table a st)))"
  by (simp add: create_mariadb_scylla_table_def Let_def split_beta map_sum_def
           split: sum.splits option.splits)

lemma triggers_prefix:
  "prefix (issued st)
     (issued (snd (create_replication_triggers db source_database scylla_database table a st)))"
proof -
  have step: "prefix xs (issued (snd r)) \<Longrightarrow> prefix xs (issued (snd (create_trigger db stmt label r)))"
    for xs r stmt label
    using create_trigger_prefix [of r db stmt label] by (rule prefix_order.order_trans [rotated])
  show ?thesis
    apply (simp add: create_replication_triggers_def Let_def split_beta map_sum_def
           split: sum.splits option.splits)
    apply (intro conjI impI allI step)
    apply simp_all
    done
qed

lemma setup_table_migration_prefix:
  "prefix (issued st @ [(MariaDB, show_full_columns_stmt (mariadb_database a) table_name)])
     (issued (snd (setup_table_migration db table_name a st)))"
proof -
  have m: "prefix xs (issued s) \<Longrightarrow>
      prefix xs (issued (snd (create_mariadb_scylla_table db d1 d2 k h p t a s)))" for xs s d1 d2 k h p t
    using mirror_table_prefix [of s db d1 d2 k h p t a] by (rule prefix_order.order_trans [rotated])
  have t: "prefix xs (issued s) \<Longrightarrow>
      prefix xs (issued (snd (create_replication_triggers db d1 d2 t a s)))" for xs s d1 d2 t
    using triggers_prefix [of s db d1 d2 t a] by (rule prefix_order.order_trans [rotated])
  show ?thesis
    apply (simp add: setup_table_migration_def Let_def split_beta map_sum_def
           split: sum.splits option.splits)
    apply (intro conjI impI allI t m)
    apply simp_all
    done
qed

lemma setup_table_migration_returns:
  assumes "target_steps_succeed db a tables" and "table_name \<in> set tables"
  shows "fst (setup_table_migration db table_name a st) = None"
proof -
  from assms have
    c: "\<And>w. \<exists>rows. fst (fetch_full_columns db (show_full_columns_stmt (mariadb_database a) table_name) w) = Inr rows"
    and n: "\<And>w. \<exists>rows. fst (fetch_names db (primary_key_query (mariadb_database a) table_name) w) = Inr rows"
    and k: "\<And>w. fst (run_statement db Scylla (create_keyspace_stmt (scylla_ks a)) w) = None"
    and s: "\<And>w col_defs pk_columns. fst (run_statement db Scylla
                   (scylla_create_stmt (scylla_ks a) table_name col_defs pk_columns) w) = None"
    by (auto simp: target_steps_succeed_def)
  obtain rows where rows: "fst (fetch_full_columns db (show_full_columns_stmt (mariadb_database a) table_name) (world st)) = Inr rows"
    using c by blast
  obtain pks where pks: "fst (fetch_names db (primary_key_query (mariadb_database a) table_name)
      (snd (fetch_full_columns db (show_full_columns_stmt (mariadb_database a) table_name) (world st)))) = Inr pks"
    using n by blast
  show ?thesis
    by (simp add: setup_table_migration_def Let_def split_beta rows pks k s)
qed

lemma setup_tables_prefix:
  "prefix (issued st) (issued (snd (setup_tables db a tables st)))"
proof (induction tables arbitrary: st)
  case Nil
  then show ?case by simp
next
  case (Cons table tables)
  let ?r = "setup_table_migration db table a (say (nl @ ''Processing table: '' @ table) st)"
  have "prefix (issued st) (issued (snd ?r))"
    using setup_table_migration_prefix [of "say (nl @ ''Processing table: '' @ table) st" a table db]
    by (auto dest: append_prefixD)
  with Cons [of "snd ?r"] show ?case
    by (auto simp: split_beta split: option.splits intro: prefix_order.order_trans)
qed

lemma setup_tables_complete:
  assumes "target_steps_succeed db a tables"
  shows "fst (setup_tables db a tables st) = None
       \<and> (\<forall>table \<in> set tables.
             (MariaDB, show_full_columns_stmt (mariadb_database a) table)
               \<in> set (issued (snd (setup_tables db a tables st))))"
  using assms
proof (induction tables arbitrary: st)
  case Nil
  then show ?case by simp
next
  case (Cons table tables)
  define r where "r = setup_table_migration db table a (say (nl @ ''Processing table: '' @ table) st)"
  from Cons.prems have rest: "target_steps_succeed db a tables"
    by (simp add: target_steps_succeed_def)
  have ok: "fst r = None"
    unfolding r_def using setup_table_migration_returns [OF Cons.prems] by simp
  have "setup_tables db a (table # tables) st
      = (case r of (Some e, st') \<Rightarrow> (Some e, st') | (None, st') \<Rightarrow> setup_tables db a tables st')"
    unfolding r_def by simp
  with ok have eq: "setup_tables db a (table # tables) st = setup_tables db a tables (snd r)"
    by (simp add: split_beta)
  have "prefix (issued (say (nl @ ''Processing table: '' @ table) st)
                  @ [(MariaDB, show_full_columns_stmt (mariadb_database a) table)])
          (issued (snd r))"
    unfolding r_def by (rule setup_table_migration_prefix)
  then have here: "(MariaDB, show_full_columns_stmt (mariadb_database a) table) \<in> set (issued (snd r))"
    by (auto simp: prefix_def)
  have mono: "set (issued (snd r)) \<subseteq> set (issued (snd (setup_tables db a tables (snd r))))"
    using setup_tables_prefix [of "snd r" db a tables] by (auto simp: prefix_def)
  from Cons.IH [OF rest, of "snd r"] here mono show ?case
    unfolding eq by auto
qed










lemma create_trigger_tracebacks [simp]:
  "tracebacks (snd (create_trigger db stmt label r)) = tracebacks (snd r)"
  by (simp add: create_trigger_def)




lemma keyspace_refusal_raised:
  assumes "fst (run_statement db Scylla (create_keyspace_stmt keyspace) (world st)) = Some m"
  shows "fst (create_keyspace db keyspace st) = Some (DbError m)
       \<and> out (snd (create_keyspace db keyspace st))
           = out st @ [''    '' @ cross_mark @ '' Error creating keyspace: '' @ m]"
  using assms by (simp add: create_keyspace_def split_beta)

lemma target_refusal_raised:
  assumes "fst (run_statement db Scylla
                  (scylla_create_stmt keyspace table_name (col_defs_of columns) pk_columns) (world st))
             = Some m"
  shows "fst (create_scylla_table db table_name columns pk_columns keyspace st) = Some (DbError m)
       \<and> last (out (snd (create_scylla_table db table_name columns pk_columns keyspace st)))
           = ''    '' @ cross_mark @ '' Error creating ScyllaDB table: '' @ m"
  using assms by (simp add: create_scylla_table_def Let_def split_beta build_col_defs_eq)











section \<open>Trigger installation on a server that refuses DELIMITER\<close>

text \<open>
  Claim C5. The claim is that a second run of the per-table setup raises no error and
  creates each trigger again after dropping it. The program sends \<open>DELIMITER $$\<close> to the
  server before each \<open>CREATE TRIGGER\<close>. With a server that refuses this statement, as a
  MariaDB server does with the commands of its command-line client, trigger installation
  fails in every state, so in the second run as in the first: the three drops are sent, the
  \<open>DELIMITER\<close> statement raises, the error line and a traceback are printed, the function
  returns False, and no \<open>CREATE TRIGGER\<close> is sent.
\<close>

theorem delimiter_refusal_stops_trigger_installation:
  assumes "\<forall>w. fst (run_statement db MariaDB ''DELIMITER $$'' w) = Some m"
    and "fst (fetch_schema db (table_schema_query source_database table) (world st)) = Inr rows"
    and "filter is_primary (map column_of_row rows) \<noteq> []"
  shows "fst (create_replication_triggers db source_database scylla_database table a st) = False
       \<and> issued (snd (create_replication_triggers db source_database scylla_database table a st))
           = issued st @ [(MariaDB, table_schema_query source_database table),
                          (MariaDB, drop_trigger_stmt source_database table ''insert''),
                          (MariaDB, drop_trigger_stmt source_database table ''update''),
                          (MariaDB, drop_trigger_stmt source_database table ''delete''),
                          (MariaDB, ''DELIMITER $$'')]
       \<and> out (snd (create_replication_triggers db source_database scylla_database table a st))
           = out st @ [''  Creating replication triggers for '' @ source_database @ ''.'' @ table
                         @ ''...'',
                       ''  '' @ cross_mark @ '' Error creating triggers for '' @ source_database
                         @ ''.'' @ table @ '': '' @ m]
       \<and> tracebacks (snd (create_replication_triggers db source_database scylla_database table a st))
           = tracebacks st @ [DbError m]"
proof -
  from assms(3) have rows: "rows \<noteq> []" by auto
  show ?thesis
    using assms rows
    by (simp add: create_replication_triggers_def create_trigger_def Let_def split_beta)
qed

theorem delimiter_refusal_stops_trigger_installation_witness:
  "tracebacks (snd (create_replication_triggers (engine_driver ''testdb'' zoo True False) ''testdb''
                      ''scylla_db'' ''animals'' default_args
                      (snd (create_replication_triggers (engine_driver ''testdb'' zoo True False)
                              ''testdb'' ''scylla_db'' ''animals'' default_args (start fresh)))))
     = [DbError ''syntax error'', DbError ''syntax error'']"
proof -
  let ?db = "engine_driver ''testdb'' zoo True False"
  let ?once = "snd (create_replication_triggers ?db ''testdb'' ''scylla_db'' ''animals''
                      default_args (start fresh))"
  have refused: "\<forall>w. fst (run_statement ?db MariaDB ''DELIMITER $$'' w) = Some ''syntax error''"
    by (simp add: engine_driver_def engine_run_def refuse_def)
  have schema: "fst (fetch_schema ?db (table_schema_query ''testdb'' ''animals'') (world s))
      = Inr animals_columns" for s
    by (simp add: engine_driver_def zoo_def table_schema_query_def)
  have keys: "filter is_primary (map column_of_row animals_columns) \<noteq> []"
    by (simp add: animals_columns_def column_of_row_def)
  from delimiter_refusal_stops_trigger_installation [where db = ?db and st = "start fresh"
      and scylla_database = "''scylla_db''" and a = default_args, OF refused schema keys]
  have first: "tracebacks ?once = [DbError ''syntax error'']"
    by (simp add: start_def)
  from delimiter_refusal_stops_trigger_installation [where db = ?db and st = ?once
      and scylla_database = "''scylla_db''" and a = default_args, OF refused schema keys] first
  show ?thesis by simp
qed

end
